theory Spec2Isabelle
  imports Complex_Main
begin

section \<open>Data model\<close>

text \<open>
  The chat front end keeps one conversation in a zustand store and drives a stateless
  generation service. The store declares
  \<^verbatim>\<open>
  export interface Message {
    role: 'user' | 'assistant';
    content: string;
    terminating?: boolean;
  }
  \<close>
  and the last \<open>ChatInterface.tsx\<close> writes and reads one more optional field of a
  message, \<open>generatedByModel\<close> (\<open>generatedByModel?: boolean\<close> in \<open>Message.tsx\<close>).
  An optional field is an \<open>option\<close>: \<open>None\<close> is JavaScript's \<open>undefined\<close> (field absent).
  The first store revision has only \<open>role\<close> and \<open>content\<close>, the second adds
  \<open>terminating\<close>; their messages are the ones whose later fields are \<open>None\<close>.
\<close>

datatype Role = User | Assistant

record Message =
  role :: Role
  content :: string
  terminating :: "bool option"
  generatedByModel :: "bool option"

text \<open>
  The store's state. \<open>error: string | null\<close> and \<open>continuationIndex: number | null\<close>
  are options; \<open>numTokens\<close> is a JavaScript number, of which only finite values are ever
  stored (the initial 50, or a value that passed the comparison in \<open>TokenControls\<close>), so
  it is a real. \<open>continuationIndex\<close> exists from the second store revision on, \<open>autoRun\<close>
  is read by the last \<open>ChatInterface.tsx\<close>; functions of a revision that has no such
  field leave it alone.
\<close>

record ChatState =
  messages :: "Message list"
  isGenerating :: bool
  error :: "string option"
  numTokens :: real
  continuationIndex :: "int option"
  autoRun :: bool

definition initialState :: ChatState where
  "initialState =
     \<lparr>messages = [], isGenerating = False, error = None, numTokens = 50,
      continuationIndex = None, autoRun = False\<rparr>"

section \<open>The store's actions\<close>

text \<open>
  Each action is the function that zustand's \<open>set\<close> applies to the state: a partial
  object is merged into the state, \<open>return state\<close> leaves it as it is.
\<close>

definition addMessage :: "Message \<Rightarrow> ChatState \<Rightarrow> ChatState" where
  "addMessage message state = state\<lparr>messages := messages state @ [message]\<rparr>"

definition clearMessages :: "ChatState \<Rightarrow> ChatState" where
  "clearMessages state = state\<lparr>messages := [], continuationIndex := None\<rparr>"

definition setGenerating :: "bool \<Rightarrow> ChatState \<Rightarrow> ChatState" where
  "setGenerating g state = state\<lparr>isGenerating := g\<rparr>"

definition setError :: "string option \<Rightarrow> ChatState \<Rightarrow> ChatState" where
  "setError e state = state\<lparr>error := e\<rparr>"

definition setNumTokens :: "real \<Rightarrow> ChatState \<Rightarrow> ChatState" where
  "setNumTokens tokens state = state\<lparr>numTokens := tokens\<rparr>"

definition setContinuationIndex :: "int option \<Rightarrow> ChatState \<Rightarrow> ChatState" where
  "setContinuationIndex index state = state\<lparr>continuationIndex := index\<rparr>"

text \<open>
  \<open>removeLastMessage\<close>: \<open>state.messages.slice(0, -1)\<close> is \<open>butlast\<close> (and \<open>[]\<close> on the
  empty array). The first revision (store/chatStore.ts) sets only \<open>messages\<close>; the
  second (the store printed after app/page.tsx) also sets \<open>continuationIndex: null\<close>.
\<close>

definition removeLastMessage_v1 :: "ChatState \<Rightarrow> ChatState" where
  "removeLastMessage_v1 state = state\<lparr>messages := butlast (messages state)\<rparr>"

definition removeLastMessage :: "ChatState \<Rightarrow> ChatState" where
  "removeLastMessage state =
     state\<lparr>messages := butlast (messages state), continuationIndex := None\<rparr>"

text \<open>
  \<open>updateLastMessage\<close>. First revision: \<open>messages[messages.length - 1].content = content\<close>
  after the guard on the empty log. Second revision: the last message is rebuilt with the
  new content, and with the new \<open>terminating\<close> when the argument is not \<open>undefined\<close>.
\<close>

definition updateLastMessage_v1 :: "string \<Rightarrow> ChatState \<Rightarrow> ChatState" where
  "updateLastMessage_v1 c state =
     (if length (messages state) = 0 then state
      else state\<lparr>messages :=
             (messages state)[length (messages state) - 1 :=
                (messages state ! (length (messages state) - 1))\<lparr>content := c\<rparr>]\<rparr>)"

definition updateLastMessage :: "string \<Rightarrow> bool option \<Rightarrow> ChatState \<Rightarrow> ChatState" where
  "updateLastMessage c t state =
     (if length (messages state) = 0 then state
      else
        let lastIndex = length (messages state) - 1;
            lastMessage = messages state ! lastIndex
        in state\<lparr>messages :=
             (messages state)[lastIndex :=
                (case t of
                   None \<Rightarrow> lastMessage\<lparr>content := c\<rparr>
                 | Some b \<Rightarrow> lastMessage\<lparr>content := c, terminating := Some b\<rparr>)]\<rparr>)"

text \<open>
  \<open>appendToAssistantMessage\<close> (second store revision). The index is a JavaScript number;
  the callers pass array indices, so it is an \<open>int\<close>, and the bounds check of the source
  is written out.
\<close>

definition appendToAssistantMessage :: "int \<Rightarrow> string \<Rightarrow> bool \<Rightarrow> ChatState \<Rightarrow> ChatState" where
  "appendToAssistantMessage index c t state =
     (if index < 0 \<or> index \<ge> int (length (messages state)) then state
      else
        let target = messages state ! nat index
        in if role target \<noteq> Assistant then state
           else state\<lparr>messages :=
                  (messages state)[nat index :=
                     target\<lparr>content := content target @ c, terminating := Some t\<rparr>]\<rparr>)"

text \<open>
  The last \<open>ChatInterface.tsx\<close> calls a store action \<open>appendToMessage(index, content,
  terminating)\<close> with the same three arguments; the store revision that declares it is
  not available, so the handlers below take that action as an argument.
\<close>

type_synonym AppendAction = "int \<Rightarrow> string \<Rightarrow> bool \<Rightarrow> ChatState \<Rightarrow> ChatState"

section \<open>Token controls\<close>

text \<open>
  \<^verbatim>\<open>
  const handleChange = (e) => {
    const value = Number(e.target.value);
    if (value > 0 && value <= 500) { setNumTokens(value); }
  };
  \<close>
  The value of an \<open><input type="number">\<close> is the empty string or a valid floating-point
  number, so \<open>Number\<close> yields a finite number: the argument is a real.
\<close>

definition handleChange :: "real \<Rightarrow> ChatState \<Rightarrow> ChatState" where
  "handleChange v state = (if v > 0 \<and> v \<le> 500 then setNumTokens v state else state)"

section \<open>The generation service (lib/api.ts)\<close>

text \<open>
  The request and the response of \<open>POST /api/generate\<close>. The fields of the request are
  prefixed where the source's name is taken by the store (\<open>messages\<close>); the steering
  values \<open>steering_config.pc_values\<close> are opaque here, a list of key and value.
\<close>

record GenerationRequest =
  req_messages :: "Message list"
  pc_values :: "(string \<times> int) list"
  num_tokens :: real
  is_partial :: bool

record GenerationResponse =
  resp_content :: string
  resp_terminating :: bool

text \<open>
  The service is outside the program. Its answer to the \<open>n\<close>-th request of a session is
  \<open>api n request\<close>: \<open>Inr\<close> the parsed response, or \<open>Inl\<close> the message of the
  \<open>Error\<close> that \<open>generateText\<close>/\<open>generateUserMessage\<close> throw
  (\<open>error.detail || 'Generation failed'\<close>, or the message of the error \<open>fetch\<close> raised).
\<close>

type_synonym Collaborator = "nat \<Rightarrow> GenerationRequest \<Rightarrow> string + GenerationResponse"

text \<open>
  What an operation does is recorded in order: every \<open>set\<close> of the store with the state
  it produced, and every request sent to the service.
\<close>

datatype Event = StoreSet ChatState | Fetch GenerationRequest

record World =
  store :: ChatState
  pcValues :: "(string \<times> int) list"
  trace :: "Event list"

text \<open>\<open>pcValues\<close> is what \<open>getPCValues()\<close> of the steering store returns.\<close>

fun fetches :: "Event list \<Rightarrow> GenerationRequest list" where
  "fetches [] = []"
| "fetches (StoreSet s # es) = fetches es"
| "fetches (Fetch r # es) = r # fetches es"

fun snapshots :: "Event list \<Rightarrow> ChatState list" where
  "snapshots [] = []"
| "snapshots (StoreSet s # es) = s # snapshots es"
| "snapshots (Fetch r # es) = snapshots es"

definition set_store :: "(ChatState \<Rightarrow> ChatState) \<Rightarrow> World \<Rightarrow> World" where
  "set_store f w =
     (let s = f (store w) in w\<lparr>store := s, trace := trace w @ [StoreSet s]\<rparr>)"

definition send_request :: "Collaborator \<Rightarrow> GenerationRequest \<Rightarrow> World
    \<Rightarrow> (string + GenerationResponse) \<times> World" where
  "send_request api request w =
     (api (length (fetches (trace w))) request, w\<lparr>trace := trace w @ [Fetch request]\<rparr>)"

definition generateText :: "Collaborator \<Rightarrow> Message list \<Rightarrow> (string \<times> int) list \<Rightarrow> real \<Rightarrow> bool
    \<Rightarrow> World \<Rightarrow> (string + GenerationResponse) \<times> World" where
  "generateText api msgs pcs n isPartial w =
     send_request api
       \<lparr>req_messages = msgs, pc_values = pcs, num_tokens = n, is_partial = isPartial\<rparr> w"

text \<open>
  \<open>swapRoles\<close> builds new objects with the two fields \<open>role\<close> and \<open>content\<close> only, so
  the other two are absent.
\<close>

definition swapRoles :: "Message list \<Rightarrow> Message list" where
  "swapRoles msgs =
     map (\<lambda>message.
            \<lparr>role = (if role message = User then Assistant else User),
             content = content message, terminating = None, generatedByModel = None\<rparr>)
         msgs"

definition ensureValidSequence :: "Message list \<Rightarrow> Message list" where
  "ensureValidSequence msgs =
     (if length msgs = 0
      then [\<lparr>role = User, content = [], terminating = None, generatedByModel = None\<rparr>]
      else if role (msgs ! 0) \<noteq> User
      then \<lparr>role = User, content = [], terminating = None, generatedByModel = None\<rparr> # msgs
      else msgs)"

definition generateUserMessage :: "Collaborator \<Rightarrow> Message list \<Rightarrow> real \<Rightarrow> bool
    \<Rightarrow> World \<Rightarrow> (string + GenerationResponse) \<times> World" where
  "generateUserMessage api msgs n isPartial w =
     (let swapped = ensureValidSequence (swapRoles msgs)
      in send_request api
           \<lparr>req_messages = swapped, pc_values = [], num_tokens = n, is_partial = isPartial\<rparr> w)"

section \<open>The chat interface (ChatInterface.tsx, last revision)\<close>

text \<open>
  The handlers are closures of the component: \<open>isGenerating\<close>, \<open>numTokens\<close> and \<open>error\<close>
  are the store's values at the render the handler belongs to, read here from the store
  when the handler starts; \<open>useChatStore.getState().messages\<close> is read where the source
  reads it. A thrown \<open>Error\<close> is \<open>Inl\<close> its message.

  \<open>generateAssistantMessage({ manageGenerating })\<close>: the \<open>try\<close> block, then the
  \<open>finally\<close>.
\<close>

definition generateAssistantMessage :: "Collaborator \<Rightarrow> bool \<Rightarrow> World
    \<Rightarrow> (string + GenerationResponse) \<times> World" where
  "generateAssistantMessage api manageGenerating w0 =
     (let w1 = (if manageGenerating then set_store (setGenerating True) w0 else w0);
          currentMessages = messages (store w1);
          (result, w2) =
            (if currentMessages = [] \<or> role (last currentMessages) \<noteq> User
             then (Inl ''Cannot generate assistant response without a user message'', w1)
             else
               case generateText api currentMessages (pcValues w1) (numTokens (store w0)) False w1 of
                 (Inl e, w) \<Rightarrow> (Inl e, w)
               | (Inr response, w) \<Rightarrow>
                   (Inr response,
                    set_store (addMessage
                      \<lparr>role = Assistant, content = resp_content response,
                       terminating = Some (resp_terminating response),
                       generatedByModel = None\<rparr>) w))
      in (result, if manageGenerating then set_store (setGenerating False) w2 else w2))"

text \<open>\<open>catch (err) { setError(err instanceof Error ? err.message : 'Generation failed') }\<close>\<close>

definition catch_error :: "(string + 'a) \<times> World \<Rightarrow> World" where
  "catch_error rw =
     (case rw of
        (Inl e, w) \<Rightarrow> set_store (setError (Some e)) w
      | (Inr _, w) \<Rightarrow> w)"

definition handleSend :: "Collaborator \<Rightarrow> string \<Rightarrow> World \<Rightarrow> World" where
  "handleSend api c w0 =
     (if isGenerating (store w0) then w0
      else
        let userMessage = \<lparr>role = User, content = c, terminating = None, generatedByModel = None\<rparr>;
            w1 = set_store (addMessage userMessage) w0;
            w2 = set_store (setError None) w1;
            w3 = set_store (setGenerating True) w2;
            w4 = catch_error (generateAssistantMessage api False w3)
        in set_store (setGenerating False) w4)"

text \<open>The \<open>try\<close> block of \<open>handleGenerateUserMessage\<close>.\<close>

definition handleGenerateUserMessage_try :: "Collaborator \<Rightarrow> real \<Rightarrow> World
    \<Rightarrow> (string + unit) \<times> World" where
  "handleGenerateUserMessage_try api n w =
     (let currentMessages = messages (store w)
      in case generateUserMessage api currentMessages n False w of
           (Inl e, w1) \<Rightarrow> (Inl e, w1)
         | (Inr response, w1) \<Rightarrow>
             let w2 = set_store (addMessage
                        \<lparr>role = User, content = resp_content response,
                         terminating = Some (resp_terminating response),
                         generatedByModel = Some True\<rparr>) w1
             in if resp_terminating response
                then (case generateAssistantMessage api False w2 of
                        (Inl e, w3) \<Rightarrow> (Inl e, w3)
                      | (Inr _, w3) \<Rightarrow> (Inr (), w3))
                else (Inr (), w2))"

definition handleGenerateUserMessage :: "Collaborator \<Rightarrow> World \<Rightarrow> World" where
  "handleGenerateUserMessage api w0 =
     (if isGenerating (store w0) then w0
      else
        let w1 = set_store (setError None) w0;
            w2 = set_store (setGenerating True) w1;
            w3 = catch_error (handleGenerateUserMessage_try api (numTokens (store w0)) w2)
        in set_store (setGenerating False) w3)"

text \<open>
  \<open>handleContinue(index)\<close>. \<open>currentMessages[index]\<close> is \<open>undefined\<close> outside the array;
  \<open>targetMessage?.role\<close> is then \<open>undefined\<close>, so both flags are false. The \<open>try\<close> block:
\<close>

definition handleContinue_try :: "Collaborator \<Rightarrow> AppendAction \<Rightarrow> real \<Rightarrow> int \<Rightarrow> World
    \<Rightarrow> (string + unit) \<times> World" where
  "handleContinue_try api appendToMessage n index w =
     (let currentMessages = messages (store w);
          lastIndex = int (length currentMessages) - 1;
          targetMessage =
            (if 0 \<le> index \<and> index < int (length currentMessages)
             then Some (currentMessages ! nat index) else None);
          isAssistantMessage =
            (case targetMessage of None \<Rightarrow> False | Some m \<Rightarrow> role m = Assistant);
          isGeneratedUser =
            (case targetMessage of None \<Rightarrow> False
             | Some m \<Rightarrow> role m = User \<and> generatedByModel m = Some True)
      in if index \<noteq> lastIndex \<or> targetMessage = None \<or>
            \<not> (isAssistantMessage \<or> isGeneratedUser) \<or>
            (case targetMessage of None \<Rightarrow> True | Some m \<Rightarrow> terminating m \<noteq> Some False)
         then (Inl ''Message is not eligible for continuation'', w)
         else
           case (if isAssistantMessage
                 then generateText api currentMessages (pcValues w) n True w
                 else generateUserMessage api currentMessages n True w) of
             (Inl e, w1) \<Rightarrow> (Inl e, w1)
           | (Inr response, w1) \<Rightarrow>
               let w2 = set_store (appendToMessage index (resp_content response)
                                     (resp_terminating response)) w1
               in if \<not> isAssistantMessage \<and> resp_terminating response
                  then (case generateAssistantMessage api False w2 of
                          (Inl e, w3) \<Rightarrow> (Inl e, w3)
                        | (Inr _, w3) \<Rightarrow> (Inr (), w3))
                  else (Inr (), w2))"

definition handleContinue :: "Collaborator \<Rightarrow> AppendAction \<Rightarrow> int \<Rightarrow> World \<Rightarrow> World" where
  "handleContinue api appendToMessage index w0 =
     (if isGenerating (store w0) then w0
      else
        let w1 = set_store (setError None) w0;
            w2 = set_store (setGenerating True) w1;
            w3 = set_store (setContinuationIndex (Some index)) w2;
            w4 = catch_error
                   (handleContinue_try api appendToMessage (numTokens (store w0)) index w3);
            w5 = set_store (setGenerating False) w4
        in set_store (setContinuationIndex None) w5)"

text \<open>
  The auto-run effect. Its guard is \<open>!autoRun || isGenerating || error\<close>, where an
  \<open>error\<close> is truthy when it is a non-empty string. \<open>runAuto\<close> awaits one handler and
  returns; the promise of \<open>generateAssistantMessage()\<close> is not caught there, so its
  result is dropped.
\<close>

definition runAuto :: "Collaborator \<Rightarrow> AppendAction \<Rightarrow> World \<Rightarrow> World" where
  "runAuto api appendToMessage w =
     (let currentMessages = messages (store w)
      in if length currentMessages = 0 then handleGenerateUserMessage api w
         else
           let lastIndex = int (length currentMessages) - 1;
               lastMessage = currentMessages ! nat lastIndex;
               isModelGeneratedUser =
                 (role lastMessage = User \<and> generatedByModel lastMessage = Some True);
               canContinue =
                 (terminating lastMessage = Some False \<and>
                  (role lastMessage = Assistant \<or> isModelGeneratedUser))
           in if canContinue then handleContinue api appendToMessage lastIndex w
              else if isModelGeneratedUser \<and> terminating lastMessage \<noteq> Some False
              then snd (generateAssistantMessage api True w)
              else if role lastMessage = Assistant \<and> terminating lastMessage \<noteq> Some False
              then handleGenerateUserMessage api w
              else w)"

definition autoRunEffect :: "Collaborator \<Rightarrow> AppendAction \<Rightarrow> World \<Rightarrow> World" where
  "autoRunEffect api appendToMessage w =
     (if \<not> autoRun (store w) \<or> isGenerating (store w) \<or>
         (case error (store w) of None \<Rightarrow> False | Some e \<Rightarrow> e \<noteq> [])
      then w
      else runAuto api appendToMessage w)"

section \<open>Earlier revisions of the chat interface\<close>



text \<open>
  The second \<open>ChatInterface.tsx\<close> continues assistant messages only, through
  \<open>appendToAssistantMessage\<close>.
\<close>

definition handleContinue_v2_try :: "Collaborator \<Rightarrow> real \<Rightarrow> int \<Rightarrow> World
    \<Rightarrow> (string + unit) \<times> World" where
  "handleContinue_v2_try api n index w =
     (let currentMessages = messages (store w);
          lastIndex = int (length currentMessages) - 1;
          targetMessage =
            (if 0 \<le> index \<and> index < int (length currentMessages)
             then Some (currentMessages ! nat index) else None)
      in if index \<noteq> lastIndex \<or>
            (case targetMessage of None \<Rightarrow> True | Some m \<Rightarrow> role m \<noteq> Assistant) \<or>
            (case targetMessage of None \<Rightarrow> True | Some m \<Rightarrow> terminating m \<noteq> Some False)
         then (Inl ''Message is not eligible for continuation'', w)
         else
           case generateText api currentMessages (pcValues w) n True w of
             (Inl e, w1) \<Rightarrow> (Inl e, w1)
           | (Inr response, w1) \<Rightarrow>
               (Inr (),
                set_store (appendToAssistantMessage index (resp_content response)
                             (resp_terminating response)) w1))"

definition handleContinue_v2 :: "Collaborator \<Rightarrow> int \<Rightarrow> World \<Rightarrow> World" where
  "handleContinue_v2 api index w0 =
     (if isGenerating (store w0) then w0
      else
        let w1 = set_store (setError None) w0;
            w2 = set_store (setGenerating True) w1;
            w3 = set_store (setContinuationIndex (Some index)) w2;
            w4 = catch_error (handleContinue_v2_try api (numTokens (store w0)) index w3);
            w5 = set_store (setGenerating False) w4
        in set_store (setContinuationIndex None) w5)"

section \<open>The specification's decision table\<close>

text \<open>
  The spec's state machine over the last turn (its speaker, \<open>terminating\<close> and
  \<open>synthetic\<close>), written from the table row by row; an absent \<open>terminating\<close> counts as
  true. The table has no row for a typed human turn that is not terminating.
\<close>

datatype Action = GenerateSyntheticHumanTurn | ContinueTurn | GenerateModelReply

definition spec_action :: "Message list \<Rightarrow> Action option" where
  "spec_action turns =
     (if turns = [] then Some GenerateSyntheticHumanTurn
      else
        let t = last turns;
            human = (role t = User);
            synthetic = (generatedByModel t = Some True);
            is_terminating = (terminating t \<noteq> Some False)
        in if human \<and> synthetic \<and> \<not> is_terminating then Some ContinueTurn
           else if human \<and> synthetic \<and> is_terminating then Some GenerateModelReply
           else if human \<and> \<not> synthetic \<and> is_terminating then Some GenerateModelReply
           else if \<not> human \<and> \<not> is_terminating then Some ContinueTurn
           else if \<not> human \<and> is_terminating then Some GenerateSyntheticHumanTurn
           else None)"

text \<open>The operation of the chat interface that carries out each action of the table.\<close>

definition perform :: "Collaborator \<Rightarrow> AppendAction \<Rightarrow> Action \<Rightarrow> World \<Rightarrow> World" where
  "perform api appendToMessage a w =
     (case a of
        GenerateSyntheticHumanTurn \<Rightarrow> handleGenerateUserMessage api w
      | ContinueTurn \<Rightarrow>
          handleContinue api appendToMessage (int (length (messages (store w))) - 1) w
      | GenerateModelReply \<Rightarrow> snd (generateAssistantMessage api True w))"

text \<open>
  The spec's condition for continuing the turn at \<open>index\<close>: it is the last turn, its
  \<open>terminating\<close> is \<open>false\<close>, and it is model-authored or a synthetic human turn.
\<close>

definition eligible_for_continuation :: "Message list \<Rightarrow> int \<Rightarrow> bool" where
  "eligible_for_continuation turns index =
     (turns \<noteq> [] \<and> index = int (length turns) - 1 \<and>
      terminating (last turns) = Some False \<and>
      (role (last turns) = Assistant \<or>
       (role (last turns) = User \<and> generatedByModel (last turns) = Some True)))"

section \<open>Sample inputs\<close>

definition typedHuman :: "string \<Rightarrow> Message" where
  "typedHuman c = \<lparr>role = User, content = c, terminating = None, generatedByModel = None\<rparr>"

definition syntheticHuman :: "string \<Rightarrow> bool \<Rightarrow> Message" where
  "syntheticHuman c t =
     \<lparr>role = User, content = c, terminating = Some t, generatedByModel = Some True\<rparr>"

definition modelTurn :: "string \<Rightarrow> bool \<Rightarrow> Message" where
  "modelTurn c t = \<lparr>role = Assistant, content = c, terminating = Some t, generatedByModel = None\<rparr>"

definition world_of :: "ChatState \<Rightarrow> World" where
  "world_of s = \<lparr>store = s, pcValues = [(''0'', 800)], trace = []\<rparr>"

text \<open>A service that always answers the same text, and one that always fails.\<close>

definition api_reply :: "string \<Rightarrow> bool \<Rightarrow> Collaborator" where
  "api_reply c t = (\<lambda>n request. Inr \<lparr>resp_content = c, resp_terminating = t\<rparr>)"

definition api_down :: Collaborator where
  "api_down = (\<lambda>n request. Inl ''Generation failed'')"

text \<open>
  Sample conversations: the empty one, one that ends with a typed human turn, one that
  ends with an unfinished model turn, and an empty one in the middle of a generation.
\<close>

definition world_empty :: World where
  "world_empty = world_of initialState"

definition world_typed :: World where
  "world_typed = world_of (initialState\<lparr>messages := [typedHuman ''Hi''], autoRun := True\<rparr>)"

definition world_partial :: World where
  "world_partial =
     world_of (initialState\<lparr>messages := [typedHuman ''Tell me a joke'', modelTurn ''Why did'' False]\<rparr>)"

definition world_busy :: World where
  "world_busy = world_of (initialState\<lparr>isGenerating := True\<rparr>)"

section \<open>Basic facts\<close>

lemma store_set_store: "store (set_store f w) = f (store w)"
  by (simp add: set_store_def Let_def)

lemma trace_set_store: "trace (set_store f w) = trace w @ [StoreSet (f (store w))]"
  by (simp add: set_store_def Let_def)

lemma pcValues_set_store: "pcValues (set_store f w) = pcValues w"
  by (simp add: set_store_def Let_def)

lemma fetches_append: "fetches (xs @ ys) = fetches xs @ fetches ys"
  by (induction xs rule: fetches.induct) simp_all

lemma snapshots_append: "snapshots (xs @ ys) = snapshots xs @ snapshots ys"
  by (induction xs rule: snapshots.induct) simp_all

lemmas world_simps = store_set_store trace_set_store pcValues_set_store fetches_append

lemmas setter_defs = setGenerating_def setError_def setContinuationIndex_def addMessage_def

lemmas sample_defs =
  world_empty_def world_typed_def world_partial_def world_busy_def world_of_def
  initialState_def typedHuman_def syntheticHuman_def modelTurn_def api_reply_def api_down_def

lemma nth_last_index: "msgs \<noteq> [] \<Longrightarrow> msgs ! nat (int (length msgs) - 1) = last msgs"
  by (simp add: last_conv_nth nat_diff_distrib')

section \<open>Token budget\<close>

text \<open>
  On whole numbers the comparison \<open>value > 0 && value <= 500\<close> accepts exactly 1 to 500.
\<close>

lemma handleChange_whole_number:
  "handleChange (of_int v) state =
     (if 1 \<le> v \<and> v \<le> 500 then state\<lparr>numTokens := of_int v\<rparr> else state)"
  by (auto simp add: handleChange_def setNumTokens_def)

lemma handleChange_examples:
  "handleChange 0 state = state"
  "handleChange (- 5) state = state"
  "handleChange 501 state = state"
  "numTokens (handleChange 1 state) = 1"
  "numTokens (handleChange 500 state) = 500"
  by (simp_all add: handleChange_def setNumTokens_def)

text \<open>
  C9. The token-budget setter is meant to accept exactly the values 1 to 500 and to leave
  the budget alone for every other input. The input 0.5 (typed into the number field)
  lies outside that range, yet it passes \<open>value > 0 && value <= 500\<close> and becomes the
  stored budget.
\<close>

theorem handleChange_accepts_half:
  "\<not> (1 \<le> (1/2 :: real)) \<and> numTokens initialState = 50 \<and>
   numTokens (handleChange (1/2) initialState) = 1/2"
  by (simp add: handleChange_def setNumTokens_def initialState_def)

section \<open>Mutators of the last turn at the empty log\<close>

text \<open>
  C10 (as amended). On a state whose message list is empty, \<open>updateLastMessage\<close> (both
  revisions) and the first revision's \<open>removeLastMessage\<close> return the state unchanged;
  the second revision's \<open>removeLastMessage\<close> leaves the list empty and every other field
  as it was, except that it sets \<open>continuationIndex\<close> to null.
\<close>

theorem last_turn_mutators_at_empty_log:
  "messages state = [] \<Longrightarrow>
     updateLastMessage c t state = state \<and>
     updateLastMessage_v1 c state = state \<and>
     removeLastMessage_v1 state = state \<and>
     removeLastMessage state = state\<lparr>continuationIndex := None\<rparr>"
  by (simp add: updateLastMessage_def updateLastMessage_v1_def
      removeLastMessage_v1_def removeLastMessage_def)

theorem last_turn_mutators_at_empty_log_witness:
  "messages initialState = [] \<and>
   updateLastMessage ''x'' (Some True) initialState = initialState \<and>
   updateLastMessage_v1 ''x'' initialState = initialState \<and>
   removeLastMessage_v1 initialState = initialState \<and>
   removeLastMessage initialState = initialState"
  using last_turn_mutators_at_empty_log [of initialState "''x''" "Some True"]
  by (simp add: initialState_def)

text \<open>
  The claim as stated (no field is modified) fails where a continuation index is set
  and the log is empty, the state \<open>handleContinue\<close> is in between its
  \<open>setContinuationIndex(index)\<close> and its \<open>finally\<close> on an empty log.
\<close>

theorem removeLastMessage_clears_continuationIndex:
  "messages (initialState\<lparr>continuationIndex := Some 0\<rparr>) = [] \<and>
   removeLastMessage (initialState\<lparr>continuationIndex := Some 0\<rparr>)
     \<noteq> initialState\<lparr>continuationIndex := Some 0\<rparr>"
  by (simp add: initialState_def removeLastMessage_def)

section \<open>Sending while a generation is in flight\<close>

text \<open>
  The last revision of \<open>handleSend\<close> returns at once when \<open>isGenerating\<close> is true: the
  store and the trace of requests are the ones before the call.
\<close>

lemma handleSend_while_generating:
  "isGenerating (store w) \<Longrightarrow> handleSend api c w = w"
  by (simp add: handleSend_def)


section \<open>The transcript of a synthetic human turn\<close>

lemma swapRoles_length: "length (swapRoles msgs) = length msgs"
  by (simp add: swapRoles_def)

text \<open>
  C4. The request that \<open>generateUserMessage\<close> sends carries
  \<open>ensureValidSequence (swapRoles msgs)\<close>: the log with every speaker flipped and every
  text kept, with one empty user turn in front exactly when the flipped log is empty or
  does not start with a user turn. That transcript is never empty and starts with a user
  turn.
\<close>

theorem generateUserMessage_transcript:
  "fetches (trace (snd (generateUserMessage api msgs n isPartial w))) =
     fetches (trace w) @
       [\<lparr>req_messages = ensureValidSequence (swapRoles msgs), pc_values = [],
         num_tokens = n, is_partial = isPartial\<rparr>] \<and>
   length (swapRoles msgs) = length msgs \<and>
   (\<forall>i < length msgs.
      role (swapRoles msgs ! i) \<noteq> role (msgs ! i) \<and>
      content (swapRoles msgs ! i) = content (msgs ! i)) \<and>
   ensureValidSequence (swapRoles msgs) =
     (if swapRoles msgs = [] \<or> role (hd (swapRoles msgs)) \<noteq> User
      then \<lparr>role = User, content = [], terminating = None, generatedByModel = None\<rparr>
             # swapRoles msgs
      else swapRoles msgs) \<and>
   ensureValidSequence (swapRoles msgs) \<noteq> [] \<and>
   role (hd (ensureValidSequence (swapRoles msgs))) = User"
proof (intro conjI)
  show "fetches (trace (snd (generateUserMessage api msgs n isPartial w))) =
     fetches (trace w) @
       [\<lparr>req_messages = ensureValidSequence (swapRoles msgs), pc_values = [],
         num_tokens = n, is_partial = isPartial\<rparr>]"
    by (simp add: generateUserMessage_def send_request_def Let_def fetches_append)
  show "length (swapRoles msgs) = length msgs"
    by (rule swapRoles_length)
  show "\<forall>i < length msgs.
      role (swapRoles msgs ! i) \<noteq> role (msgs ! i) \<and>
      content (swapRoles msgs ! i) = content (msgs ! i)"
    by (simp add: swapRoles_def)
  show "ensureValidSequence (swapRoles msgs) =
     (if swapRoles msgs = [] \<or> role (hd (swapRoles msgs)) \<noteq> User
      then \<lparr>role = User, content = [], terminating = None, generatedByModel = None\<rparr>
             # swapRoles msgs
      else swapRoles msgs)"
    by (cases msgs) (simp_all add: ensureValidSequence_def swapRoles_def)
  show "ensureValidSequence (swapRoles msgs) \<noteq> []"
    by (simp add: ensureValidSequence_def)
  show "role (hd (ensureValidSequence (swapRoles msgs))) = User"
    by (cases msgs) (simp_all add: ensureValidSequence_def swapRoles_def)
qed

text \<open>
  The spec's scenario: the log \<open>[{human, "Hi"}, {model, "Hello"}]\<close> is sent as an empty
  user turn, then "Hi" as the assistant, then "Hello" as the user.
\<close>

theorem generateUserMessage_transcript_witness:
  "fetches (trace (snd (generateUserMessage api_down
       [typedHuman ''Hi'', modelTurn ''Hello'' True] 50 False world_empty))) =
     [\<lparr>req_messages =
         [\<lparr>role = User, content = [], terminating = None, generatedByModel = None\<rparr>,
          \<lparr>role = Assistant, content = ''Hi'', terminating = None, generatedByModel = None\<rparr>,
          \<lparr>role = User, content = ''Hello'', terminating = None, generatedByModel = None\<rparr>],
       pc_values = [], num_tokens = 50, is_partial = False\<rparr>]"
  using generateUserMessage_transcript
    [of api_down "[typedHuman ''Hi'', modelTurn ''Hello'' True]" 50 False world_empty]
  by (simp add: sample_defs swapRoles_def)

section \<open>Appending to a turn\<close>




section \<open>Continuing a turn that is not eligible\<close>

lemma handleContinue_try_ineligible:
  "\<not> eligible_for_continuation (messages (store w)) index \<Longrightarrow>
   handleContinue_try api appendToMessage n index w = (Inl ''Message is not eligible for continuation'', w)"
proof (cases "messages (store w) = []")
  case True
  then show ?thesis
    by (simp add: handleContinue_try_def Let_def)
next
  case False
  assume "\<not> eligible_for_continuation (messages (store w)) index"
  with False show ?thesis
    by (cases "index = int (length (messages (store w))) - 1")
       (auto simp add: handleContinue_try_def Let_def eligible_for_continuation_def
          nth_last_index)
qed

lemma handleContinue_v2_try_ineligible:
  "\<not> eligible_for_continuation (messages (store w)) index \<Longrightarrow>
   handleContinue_v2_try api n index w = (Inl ''Message is not eligible for continuation'', w)"
proof (cases "messages (store w) = []")
  case True
  then show ?thesis
    by (simp add: handleContinue_v2_try_def Let_def)
next
  case False
  assume "\<not> eligible_for_continuation (messages (store w)) index"
  with False show ?thesis
    by (cases "index = int (length (messages (store w))) - 1")
       (auto simp add: handleContinue_v2_try_def Let_def eligible_for_continuation_def
          nth_last_index)
qed

text \<open>
  C1 (as amended). When no generation is in flight and the turn at \<open>index\<close> is not
  eligible (it is not the last turn, or its \<open>terminating\<close> is not \<open>false\<close>, or it is
  neither a model turn nor a synthetic human turn), \<open>handleContinue\<close> sends no request,
  leaves the turn log as it was, and ends with the error "Message is not eligible for
  continuation", \<open>isGenerating\<close> false and \<open>continuationIndex\<close> null. The same holds for
  the revision that continues assistant messages only.
\<close>

theorem handleContinue_ineligible:
  assumes "\<not> isGenerating (store w)"
      and "\<not> eligible_for_continuation (messages (store w)) index"
  shows "(let w' = handleContinue api appendToMessage index w
          in fetches (trace w') = fetches (trace w) \<and>
             messages (store w') = messages (store w) \<and>
             error (store w') = Some ''Message is not eligible for continuation'' \<and>
             \<not> isGenerating (store w') \<and>
             continuationIndex (store w') = None) \<and>
         (let w' = handleContinue_v2 api index w
          in fetches (trace w') = fetches (trace w) \<and>
             messages (store w') = messages (store w) \<and>
             error (store w') = Some ''Message is not eligible for continuation'' \<and>
             \<not> isGenerating (store w') \<and>
             continuationIndex (store w') = None)"
proof -
  let ?w3 = "set_store (setContinuationIndex (Some index))
               (set_store (setGenerating True) (set_store (setError None) w))"
  have "messages (store ?w3) = messages (store w)"
    by (simp add: world_simps setter_defs)
  with assms(2) have inel: "\<not> eligible_for_continuation (messages (store ?w3)) index"
    by simp
  have t1: "handleContinue_try api appendToMessage (numTokens (store w)) index ?w3 =
              (Inl ''Message is not eligible for continuation'', ?w3)"
    using inel by (rule handleContinue_try_ineligible)
  have t2: "handleContinue_v2_try api (numTokens (store w)) index ?w3 =
              (Inl ''Message is not eligible for continuation'', ?w3)"
    using inel by (rule handleContinue_v2_try_ineligible)
  show ?thesis
    using assms(1)
    by (simp add: handleContinue_def handleContinue_v2_def Let_def t1 t2 catch_error_def
        world_simps setter_defs)
qed

text \<open>Index 0 of a log that ends with a typed human turn: the last turn, but not eligible.\<close>

theorem handleContinue_ineligible_witness:
  "\<not> isGenerating (store world_typed) \<and>
   \<not> eligible_for_continuation (messages (store world_typed)) 0 \<and>
   fetches (trace (handleContinue (api_reply ''Hello'' True) appendToAssistantMessage 0 world_typed)) = [] \<and>
   messages (store (handleContinue (api_reply ''Hello'' True) appendToAssistantMessage 0 world_typed)) = [typedHuman ''Hi''] \<and>
   error (store (handleContinue (api_reply ''Hello'' True) appendToAssistantMessage 0 world_typed)) =
     Some ''Message is not eligible for continuation'' \<and>
   \<not> isGenerating (store (handleContinue (api_reply ''Hello'' True) appendToAssistantMessage 0 world_typed)) \<and>
   continuationIndex (store (handleContinue (api_reply ''Hello'' True) appendToAssistantMessage 0 world_typed)) = None"
  using handleContinue_ineligible
    [where w = world_typed and index = 0 and api = "api_reply ''Hello'' True"
       and appendToMessage = appendToAssistantMessage]
  by (simp add: sample_defs eligible_for_continuation_def Let_def)

text \<open>
  The claim as stated (for every state) fails while a generation is in flight:
  \<open>handleContinue\<close> returns at its first line, so no error is recorded and
  \<open>isGenerating\<close> stays true.
\<close>

theorem handleContinue_gate_records_no_error:
  "\<not> eligible_for_continuation (messages (store world_busy)) 0 \<and>
   error (store (handleContinue api_down appendToAssistantMessage 0 world_busy)) = None \<and>
   isGenerating (store (handleContinue api_down appendToAssistantMessage 0 world_busy))"
  by (simp add: handleContinue_def sample_defs eligible_for_continuation_def)

text \<open>While a generation is in flight the handler returns at its first line.\<close>

lemma handleContinue_while_generating:
  "isGenerating (store w) \<Longrightarrow> handleContinue api appendToMessage index w = w"
  by (simp add: handleContinue_def)

text \<open>Conversely, an eligible turn is continued: a partial request is sent.\<close>

lemma handleContinue_eligible_sends_request:
  assumes "\<not> isGenerating (store w)"
      and "eligible_for_continuation (messages (store w)) index"
  shows "\<exists>request rest. is_partial request \<and>
           fetches (trace (handleContinue api appendToMessage index w)) =
             fetches (trace w) @ request # rest"
  using assms
  by (auto simp add: handleContinue_def handleContinue_try_def eligible_for_continuation_def
      generateText_def generateUserMessage_def generateAssistantMessage_def send_request_def
      catch_error_def Let_def world_simps setter_defs nth_last_index
      split: sum.splits prod.splits)

section \<open>Generating the model's reply\<close>

text \<open>
  C7 (as amended). When the log is empty or its last turn is not a human turn,
  \<open>generateAssistantMessage\<close> sends no request and appends no turn; it throws "Cannot
  generate assistant response without a user message" to its caller and does not write
  the error field itself (the \<open>catch\<close> of an enclosing operation records the message).
  When the last turn is a human turn, typed or synthetic, it sends one request with the
  full log, and on success appends the response as a model turn with the returned
  \<open>terminating\<close> flag.
\<close>

theorem generateAssistantMessage_precondition:
  "((messages (store w) = [] \<or> role (last (messages (store w))) \<noteq> User) \<longrightarrow>
      (let (result, w') = generateAssistantMessage api manageGenerating w
       in result = Inl ''Cannot generate assistant response without a user message'' \<and>
          fetches (trace w') = fetches (trace w) \<and>
          messages (store w') = messages (store w) \<and>
          error (store w') = error (store w) \<and>
          error (store (catch_error (result, w'))) =
            Some ''Cannot generate assistant response without a user message'')) \<and>
   ((messages (store w) \<noteq> [] \<and> role (last (messages (store w))) = User) \<longrightarrow>
      (let request = \<lparr>req_messages = messages (store w), pc_values = pcValues w,
                       num_tokens = numTokens (store w), is_partial = False\<rparr>;
           (result, w') = generateAssistantMessage api manageGenerating w
       in fetches (trace w') = fetches (trace w) @ [request] \<and>
          result = api (length (fetches (trace w))) request \<and>
          (\<forall>response. result = Inr response \<longrightarrow>
             messages (store w') = messages (store w) @
               [\<lparr>role = Assistant, content = resp_content response,
                 terminating = Some (resp_terminating response),
                 generatedByModel = None\<rparr>]) \<and>
          (\<forall>e. result = Inl e \<longrightarrow> messages (store w') = messages (store w))))"
  by (cases manageGenerating)
     (auto simp add: generateAssistantMessage_def generateText_def send_request_def Let_def
        catch_error_def world_simps setter_defs split: sum.splits prod.splits)

theorem generateAssistantMessage_precondition_witness:
  "fst (generateAssistantMessage (api_reply ''Hello'' False) True world_empty) =
     Inl ''Cannot generate assistant response without a user message'' \<and>
   fetches (trace (snd (generateAssistantMessage (api_reply ''Hello'' False) True world_empty))) = [] \<and>
   messages (store (snd (generateAssistantMessage (api_reply ''Hello'' False) True world_empty))) = [] \<and>
   fetches (trace (snd (generateAssistantMessage (api_reply ''Hello'' False) True world_typed))) =
     [\<lparr>req_messages = [typedHuman ''Hi''], pc_values = [(''0'', 800)], num_tokens = 50,
       is_partial = False\<rparr>] \<and>
   messages (store (snd (generateAssistantMessage (api_reply ''Hello'' False) True world_typed))) =
     [typedHuman ''Hi'', modelTurn ''Hello'' False]"
  using generateAssistantMessage_precondition [of world_empty "api_reply ''Hello'' False" True]
    generateAssistantMessage_precondition [of world_typed "api_reply ''Hello'' False" True]
  by (simp add: sample_defs split: prod.splits)

text \<open>
  The claim as stated (the error field is set) fails for the function itself: on the empty
  log the error field is still null after the call.
\<close>

theorem generateAssistantMessage_leaves_error_field:
  "messages (store world_empty) = [] \<and>
   error (store (snd (generateAssistantMessage (api_reply ''Hello'' True) True world_empty))) = None"
  by (simp add: generateAssistantMessage_def sample_defs Let_def world_simps setter_defs)

section \<open>The generating flag at the end of an operation\<close>

text \<open>
  C8. Every operation that passes its gate (\<open>isGenerating\<close> false on entry),
  \<open>handleSend\<close>, \<open>handleGenerateUserMessage\<close> and \<open>handleContinue\<close>, together with
  the model-reply generation it invokes, ends with \<open>isGenerating\<close> false on every exit
  path: normal completion, a failed precondition, and a failure of the service (the
  service \<open>api\<close> and the arguments are arbitrary). So does \<open>generateAssistantMessage\<close>
  invoked on its own, from any state.
\<close>

theorem isGenerating_after_operation:
  "(\<not> isGenerating (store w) \<longrightarrow>
      \<not> isGenerating (store (handleSend api c w)) \<and>
      \<not> isGenerating (store (handleGenerateUserMessage api w)) \<and>
      \<not> isGenerating (store (handleContinue api appendToMessage index w))) \<and>
   \<not> isGenerating (store (snd (generateAssistantMessage api True w)))"
  by (simp add: handleSend_def handleGenerateUserMessage_def handleContinue_def
      generateAssistantMessage_def Let_def world_simps setter_defs split: prod.splits)

text \<open>
  The three exit paths: the service fails (\<open>handleSend\<close>), a precondition fails
  (\<open>handleContinue\<close> on a typed human turn), normal completion with the chained reply
  (\<open>handleGenerateUserMessage\<close>).
\<close>

theorem isGenerating_after_operation_witness:
  "\<not> isGenerating (store world_typed) \<and>
   error (store (handleSend api_down ''x'' world_typed)) = Some ''Generation failed'' \<and>
   \<not> isGenerating (store (handleSend api_down ''x'' world_typed)) \<and>
   error (store (handleContinue api_down appendToAssistantMessage 0 world_typed)) =
     Some ''Message is not eligible for continuation'' \<and>
   \<not> isGenerating (store (handleContinue api_down appendToAssistantMessage 0 world_typed)) \<and>
   \<not> isGenerating (store (handleGenerateUserMessage api_down world_typed)) \<and>
   \<not> isGenerating (store (snd (generateAssistantMessage api_down True world_typed)))"
  using isGenerating_after_operation
    [where w = world_typed and api = api_down and c = "''x''" and index = 0
       and appendToMessage = appendToAssistantMessage]
  by (simp add: sample_defs handleSend_def handleContinue_def handleContinue_try_def
      generateAssistantMessage_def generateText_def send_request_def catch_error_def
      Let_def world_simps setter_defs)

section \<open>The synthetic human turn and its chained reply\<close>

text \<open>
  C6. When \<open>handleGenerateUserMessage\<close> runs (no generation in flight), the service
  answers its request with a response whose \<open>terminating\<close> is true, then the operation
  is exactly: clear the error, set \<open>isGenerating\<close>, send the swapped transcript, append
  the synthetic human turn, send the model-reply request for the log that now ends with
  that turn, record the reply (or the error), reset \<open>isGenerating\<close>. Every state of the
  store from the setting of the flag to the recording of the reply has \<open>isGenerating\<close>
  true; only the last one has it false.
\<close>

theorem handleGenerateUserMessage_chains_reply:
  assumes idle: "\<not> isGenerating (store w)"
      and ok: "api (length (fetches (trace w)))
                 \<lparr>req_messages = ensureValidSequence (swapRoles (messages (store w))),
                  pc_values = [], num_tokens = numTokens (store w), is_partial = False\<rparr>
               = Inr response"
      and fin: "resp_terminating response"
  shows "let request1 = \<lparr>req_messages = ensureValidSequence (swapRoles (messages (store w))),
                          pc_values = [], num_tokens = numTokens (store w), is_partial = False\<rparr>;
             synthetic = \<lparr>role = User, content = resp_content response,
                          terminating = Some True, generatedByModel = Some True\<rparr>;
             request2 = \<lparr>req_messages = messages (store w) @ [synthetic], pc_values = pcValues w,
                          num_tokens = numTokens (store w), is_partial = False\<rparr>;
             w' = handleGenerateUserMessage api w
         in \<exists>s1 s2 s3 s4 s5.
              trace w' = trace w @
                [StoreSet s1, StoreSet s2, Fetch request1, StoreSet s3, Fetch request2,
                 StoreSet s4, StoreSet s5] \<and>
              isGenerating s2 \<and> isGenerating s3 \<and> isGenerating s4 \<and> \<not> isGenerating s5 \<and>
              messages s2 = messages (store w) \<and>
              messages s3 = messages (store w) @ [synthetic] \<and>
              store w' = s5 \<and>
              (case api (Suc (length (fetches (trace w)))) request2 of
                 Inr reply \<Rightarrow>
                   messages s5 = messages (store w) @
                     [synthetic,
                      \<lparr>role = Assistant, content = resp_content reply,
                       terminating = Some (resp_terminating reply), generatedByModel = None\<rparr>] \<and>
                   error s5 = None
               | Inl e \<Rightarrow>
                   messages s5 = messages (store w) @ [synthetic] \<and> error s5 = Some e)"
  using idle ok fin
  by (simp add: handleGenerateUserMessage_def handleGenerateUserMessage_try_def
      generateUserMessage_def generateAssistantMessage_def generateText_def send_request_def
      catch_error_def Let_def world_simps setter_defs split: sum.splits)

text \<open>
  The spec's scenario of a fresh, empty log: a synthetic human turn, then the model's
  reply, with the flag true in every state between the first and the last.
\<close>

theorem handleGenerateUserMessage_chains_reply_witness:
  "\<not> isGenerating (store world_empty) \<and>
   messages (store (handleGenerateUserMessage (api_reply ''Hello'' True) world_empty)) =
     [syntheticHuman ''Hello'' True, modelTurn ''Hello'' True] \<and>
   map isGenerating (snapshots (trace (handleGenerateUserMessage (api_reply ''Hello'' True) world_empty))) =
     [False, True, True, True, False] \<and>
   length (fetches (trace (handleGenerateUserMessage (api_reply ''Hello'' True) world_empty))) = 2"
  using handleGenerateUserMessage_chains_reply
    [of world_empty "api_reply ''Hello'' True" "\<lparr>resp_content = ''Hello'', resp_terminating = True\<rparr>"]
  by (simp add: sample_defs handleGenerateUserMessage_def handleGenerateUserMessage_try_def
      generateUserMessage_def generateAssistantMessage_def generateText_def send_request_def
      catch_error_def Let_def world_simps setter_defs)

section \<open>The auto-run effect and the decision table\<close>

text \<open>
  C2 (as amended). When the auto-run effect fires with \<open>autoRun\<close> true, \<open>isGenerating\<close>
  false and no error set, it carries out the action the spec's table gives for the last
  turn whenever the log is empty or its last turn is a model turn or a synthetic human
  turn. When the last turn is a typed human turn, it does nothing: the world is the one
  before.
\<close>

theorem autoRunEffect_decision:
  assumes "autoRun (store w)" and "\<not> isGenerating (store w)" and "error (store w) = None"
  shows "let turns = messages (store w)
         in if turns \<noteq> [] \<and> role (last turns) = User \<and>
               generatedByModel (last turns) \<noteq> Some True
            then autoRunEffect api appendToMessage w = w
            else \<exists>a. spec_action turns = Some a \<and>
                   autoRunEffect api appendToMessage w = perform api appendToMessage a w"
proof (cases "messages (store w) = []")
  case True
  with assms show ?thesis
    by (simp add: autoRunEffect_def runAuto_def spec_action_def perform_def Let_def)
next
  case False
  with assms show ?thesis
    by (cases "role (last (messages (store w)))")
       (auto simp add: autoRunEffect_def runAuto_def spec_action_def perform_def Let_def
          nth_last_index)
qed

text \<open>
  On the empty log the effect generates a synthetic human turn; after an unfinished model
  turn it continues that turn.
\<close>

theorem autoRunEffect_decision_witness:
  "autoRun (store (world_empty\<lparr>store := initialState\<lparr>autoRun := True\<rparr>\<rparr>)) \<and>
   spec_action (messages (store (world_empty\<lparr>store := initialState\<lparr>autoRun := True\<rparr>\<rparr>))) =
     Some GenerateSyntheticHumanTurn \<and>
   autoRunEffect (api_reply ''Hello'' False) appendToAssistantMessage
       (world_empty\<lparr>store := initialState\<lparr>autoRun := True\<rparr>\<rparr>) =
     handleGenerateUserMessage (api_reply ''Hello'' False)
       (world_empty\<lparr>store := initialState\<lparr>autoRun := True\<rparr>\<rparr>) \<and>
   autoRunEffect api_down appendToAssistantMessage world_typed = world_typed"
  using autoRunEffect_decision
    [where w = "world_empty\<lparr>store := initialState\<lparr>autoRun := True\<rparr>\<rparr>"
       and api = "api_reply ''Hello'' False" and appendToMessage = appendToAssistantMessage]
    autoRunEffect_decision
    [where w = world_typed and api = api_down and appendToMessage = appendToAssistantMessage]
  by (simp add: sample_defs spec_action_def perform_def Let_def)

text \<open>
  The claim as stated fails on a log that ends with a typed human turn: the table says
  "generate model reply", which sends a request, and the effect sends none.
\<close>

theorem autoRunEffect_typed_human_no_reply:
  "autoRun (store world_typed) \<and> \<not> isGenerating (store world_typed) \<and>
   error (store world_typed) = None \<and>
   messages (store world_typed) = [typedHuman ''Hi''] \<and>
   spec_action (messages (store world_typed)) = Some GenerateModelReply \<and>
   fetches (trace (autoRunEffect (api_reply ''Hello'' True) appendToAssistantMessage world_typed)) = [] \<and>
   fetches (trace (perform (api_reply ''Hello'' True) appendToAssistantMessage GenerateModelReply
      world_typed)) \<noteq> []"
  by (simp add: autoRunEffect_def runAuto_def spec_action_def perform_def Let_def sample_defs
      generateAssistantMessage_def generateText_def send_request_def world_simps setter_defs)

section \<open>A continuation, end to end\<close>

text \<open>
  The spec's scenario: after "Tell me a joke" the model's reply "Why did" is cut short;
  continuing turn 1 with the response " the chicken..." completes that same turn
  (with \<open>appendToAssistantMessage\<close> as the store's append action).
\<close>

lemma continuation_chain_scenario:
  "messages (store (snd (generateAssistantMessage (api_reply ''Why did'' False) True
      (world_of (initialState\<lparr>messages := [typedHuman ''Tell me a joke'']\<rparr>))))) =
     [typedHuman ''Tell me a joke'', modelTurn ''Why did'' False]"
  "messages (store (handleContinue (api_reply '' the chicken...'' True) appendToAssistantMessage 1
      world_partial)) =
     [typedHuman ''Tell me a joke'', modelTurn ''Why did the chicken...'' True]"
  "fetches (trace (handleContinue (api_reply '' the chicken...'' True) appendToAssistantMessage 1
      world_partial)) =
     [\<lparr>req_messages = [typedHuman ''Tell me a joke'', modelTurn ''Why did'' False],
       pc_values = [(''0'', 800)], num_tokens = 50, is_partial = True\<rparr>]"
  by (simp_all add: sample_defs handleContinue_def handleContinue_try_def
      generateAssistantMessage_def generateText_def send_request_def appendToAssistantMessage_def
      catch_error_def Let_def world_simps setter_defs)

end
